theory Spec2Isabelle
  imports Main "HOL-Library.Sublist" "HOL-Library.Word"
begin

section \<open>Strings\<close>

text \<open>
  A JavaScript string is a sequence of 16-bit code units. A literal of the program is
  written \<open>utf16 ''...''\<close>: the code units of its ASCII characters.
\<close>

type_synonym codeUnit = "16 word"

type_synonym jsstring = "codeUnit list"

definition utf16 :: "string \<Rightarrow> jsstring" where
  "utf16 s = map (\<lambda>c. of_nat (of_char c)) s"

definition NL :: codeUnit where
  "NL = 0x0A"

definition DQ :: codeUnit where
  "DQ = 0x22"

text \<open>
  \<open>String.prototype.trim\<close> removes from both ends the code units that are white space
  or line terminators.
\<close>

definition isWhiteSpace :: "codeUnit \<Rightarrow> bool" where
  "isWhiteSpace c =
     (c \<in> {0x09, 0x0A, 0x0B, 0x0C, 0x0D, 0x20, 0xA0, 0x1680, 0x2028, 0x2029, 0x202F, 0x205F,
           0x3000, 0xFEFF}
      \<or> (0x2000 \<le> c \<and> c \<le> 0x200A))"

definition trim :: "jsstring \<Rightarrow> jsstring" where
  "trim s = rev (dropWhile isWhiteSpace (rev (dropWhile isWhiteSpace s)))"

text \<open>\<open>String.prototype.includes\<close>: the pattern occurs at some position.\<close>

fun str_includes :: "jsstring \<Rightarrow> jsstring \<Rightarrow> bool" where
  "str_includes [] pat = (pat = [])"
| "str_includes (c # cs) pat = (prefix pat (c # cs) \<or> str_includes cs pat)"

text \<open>A number in a template literal: its decimal digits.\<close>

definition digit :: "nat \<Rightarrow> codeUnit" where
  "digit d = of_nat (48 + d)"

fun natToString :: "nat \<Rightarrow> jsstring" where
  "natToString n = (if n < 10 then [digit n] else natToString (n div 10) @ [digit (n mod 10)])"

declare natToString.simps [simp del]

definition numToString :: "int \<Rightarrow> jsstring" where
  "numToString i = (if i < 0 then 0x2D # natToString (nat (- i)) else natToString (nat i))"

subsection \<open>Code points\<close>




definition encodeCodePoint :: "nat \<Rightarrow> jsstring" where
  "encodeCodePoint cp =
     (if cp \<le> 0xFFFF then [of_nat cp]
      else [of_nat (0xD800 + (cp - 0x10000) div 0x400),
            of_nat (0xDC00 + (cp - 0x10000) mod 0x400)])"


subsection \<open>Lower case\<close>






subsection \<open>Percent decoding\<close>

text \<open>
  \<open>decodeURIComponent\<close>: every \<open>%\<close> must start an escape of two hexadecimal digits; an
  octet below 0x80 is a code unit, and an octet from 0xC0 on starts a UTF-8 sequence of
  two to four escaped octets, which must encode a code point. The result is \<open>None\<close>
  where the function throws a \<open>URIError\<close>.
\<close>

definition hexValue :: "codeUnit \<Rightarrow> nat option" where
  "hexValue c =
     (if 0x30 \<le> c \<and> c \<le> 0x39 then Some (unat c - 0x30)
      else if 0x41 \<le> c \<and> c \<le> 0x46 then Some (unat c - 0x41 + 10)
      else if 0x61 \<le> c \<and> c \<le> 0x66 then Some (unat c - 0x61 + 10)
      else None)"

datatype uriToken = Literal codeUnit | Octet nat

fun uriTokens :: "jsstring \<Rightarrow> uriToken list option" where
  "uriTokens [] = Some []"
| "uriTokens (c # cs) =
     (if c \<noteq> 0x25 then map_option (Cons (Literal c)) (uriTokens cs)
      else (case cs of
              h1 # h2 # rest \<Rightarrow>
                (case hexValue h1 of
                   None \<Rightarrow> None
                 | Some a \<Rightarrow>
                     (case hexValue h2 of
                        None \<Rightarrow> None
                      | Some b \<Rightarrow> map_option (Cons (Octet (16 * a + b))) (uriTokens rest)))
            | _ \<Rightarrow> None))"

definition isContinuation :: "nat \<Rightarrow> bool" where
  "isContinuation b = (0x80 \<le> b \<and> b < 0xC0)"

definition utf8CodePoint :: "nat list \<Rightarrow> nat option" where
  "utf8CodePoint octets =
     (case octets of
        [b1, b2] \<Rightarrow>
          (let v = (b1 - 0xC0) * 0x40 + (b2 - 0x80) in
           if isContinuation b2 \<and> 0x80 \<le> v then Some v else None)
      | [b1, b2, b3] \<Rightarrow>
          (let v = (b1 - 0xE0) * 0x1000 + (b2 - 0x80) * 0x40 + (b3 - 0x80) in
           if isContinuation b2 \<and> isContinuation b3 \<and> 0x800 \<le> v
              \<and> \<not> (0xD800 \<le> v \<and> v \<le> 0xDFFF)
           then Some v else None)
      | [b1, b2, b3, b4] \<Rightarrow>
          (let v = (b1 - 0xF0) * 0x40000 + (b2 - 0x80) * 0x1000 + (b3 - 0x80) * 0x40
                   + (b4 - 0x80) in
           if isContinuation b2 \<and> isContinuation b3 \<and> isContinuation b4
              \<and> 0x10000 \<le> v \<and> v \<le> 0x10FFFF
           then Some v else None)
      | _ \<Rightarrow> None)"

fun decodeTokens :: "uriToken list \<Rightarrow> jsstring option" where
  "decodeTokens [] = Some []"
| "decodeTokens (Literal c # ts) = map_option (Cons c) (decodeTokens ts)"
| "decodeTokens (Octet b # ts) =
     (if b < 0x80 then map_option (Cons (of_nat b)) (decodeTokens ts)
      else if b < 0xC0 then None
      else if b < 0xE0 then
        (case ts of
           Octet b2 # ts' \<Rightarrow>
             (case utf8CodePoint [b, b2] of
                None \<Rightarrow> None
              | Some v \<Rightarrow> map_option (append (encodeCodePoint v)) (decodeTokens ts'))
         | _ \<Rightarrow> None)
      else if b < 0xF0 then
        (case ts of
           Octet b2 # Octet b3 # ts' \<Rightarrow>
             (case utf8CodePoint [b, b2, b3] of
                None \<Rightarrow> None
              | Some v \<Rightarrow> map_option (append (encodeCodePoint v)) (decodeTokens ts'))
         | _ \<Rightarrow> None)
      else if b < 0xF8 then
        (case ts of
           Octet b2 # Octet b3 # Octet b4 # ts' \<Rightarrow>
             (case utf8CodePoint [b, b2, b3, b4] of
                None \<Rightarrow> None
              | Some v \<Rightarrow> map_option (append (encodeCodePoint v)) (decodeTokens ts'))
         | _ \<Rightarrow> None)
      else None)"

definition decodeURIComponent :: "jsstring \<Rightarrow> jsstring option" where
  "decodeURIComponent s =
     (case uriTokens s of None \<Rightarrow> None | Some ts \<Rightarrow> decodeTokens ts)"

text \<open>
  \<open>url.split(',')[1]\<close>: the text between the first comma and the next one, or
  \<open>undefined\<close> (the value \<open>None\<close>) when the string has no comma.
\<close>

definition secondField :: "jsstring \<Rightarrow> jsstring option" where
  "secondField url =
     (case dropWhile (\<lambda>c. c \<noteq> 0x2C) url of
        [] \<Rightarrow> None
      | _ # rest \<Rightarrow> Some (takeWhile (\<lambda>c. c \<noteq> 0x2C) rest))"

text \<open>A value in a template literal that may be \<open>undefined\<close>.\<close>

definition templateText :: "jsstring option \<Rightarrow> jsstring" where
  "templateText v = (case v of None \<Rightarrow> utf16 ''undefined'' | Some s \<Rightarrow> s)"

section \<open>Data model (types.ts)\<close>

record Video =
  id' :: jsstring
  videoUrl :: jsstring
  title :: jsstring
  description :: jsstring

datatype ErrorType = api_key | generation_failed | network | unknown

record ErrorDetails =
  errTitle :: jsstring
  errMessages :: "jsstring list"
  errType :: ErrorType

datatype Quality = Q_fast | Q_quality

datatype Duration = D_short | D_medium | D_long

datatype AspectRatio = AR_16_9 | AR_9_16 | AR_1_1

record Options =
  numberOfVideos :: int
  quality :: Quality
  duration :: Duration
  aspectRatio :: AspectRatio

section \<open>The remix editor (EditVideoPage)\<close>

record EditVideoPage =
  video :: Video
  editPrompt :: jsstring
  isMaskActive :: bool
  options :: Options

text \<open>The state of a freshly opened editor: the \<open>useState\<close> initial values.\<close>

definition initialEditVideoPage :: "Video \<Rightarrow> EditVideoPage" where
  "initialEditVideoPage v =
     \<lparr>video = v, editPrompt = [], isMaskActive = False,
      options = \<lparr>numberOfVideos = 1, quality = Q_fast, duration = D_medium,
                 aspectRatio = AR_16_9\<rparr>\<rparr>"

definition handleSave :: "EditVideoPage \<Rightarrow> Video \<times> Options" where
  "handleSave p =
     (let finalDescription =
            (if isMaskActive p \<and> trim (editPrompt p) \<noteq> []
             then description (video p) @ [NL, NL]
                    @ utf16 ''In the highlighted area, please '' @ editPrompt p @ utf16 ''.''
             else description (video p))
      in ((video p)\<lparr>description := finalDescription\<rparr>, options p))"

definition incrementVideos :: "EditVideoPage \<Rightarrow> EditVideoPage" where
  "incrementVideos p =
     p\<lparr>options := (options p)\<lparr>numberOfVideos := min (numberOfVideos (options p) + 1) 4\<rparr>\<rparr>"

definition decrementVideos :: "EditVideoPage \<Rightarrow> EditVideoPage" where
  "decrementVideos p =
     p\<lparr>options := (options p)\<lparr>numberOfVideos := max (numberOfVideos (options p) - 1) 1\<rparr>\<rparr>"

datatype CountAction = Increment | Decrement

fun countAction :: "EditVideoPage \<Rightarrow> CountAction \<Rightarrow> EditVideoPage" where
  "countAction p Increment = incrementVideos p"
| "countAction p Decrement = decrementVideos p"

section \<open>The generation service and the orchestrator (App.tsx)\<close>

text \<open>
  A value caught by \<open>catch\<close>: an \<open>Error\<close> (of any subclass) with its message, or any other
  thrown value.
\<close>

datatype exn = Error jsstring | NonError

text \<open>
  How a promise settles: never, or rejected or fulfilled after a number of turns of the
  event loop.
\<close>

datatype 'a promise = Pending | Rejected nat exn | Fulfilled nat 'a

record GeneratedVideo =
  uri :: jsstring

record GenerateVideosResponse =
  generatedVideos :: "GeneratedVideo list option"

record Operation =
  opDone :: bool
  response :: "GenerateVideosResponse option"

text \<open>
  A blob is known by what a \<open>FileReader\<close> makes of it: \<open>readAsDataURL\<close> is the data URL
  handed to \<open>onload\<close>, or a failure, for which the reader has no handler.
\<close>

record Blob =
  readAsDataURL :: "jsstring promise"

text \<open>The answer of \<open>fetch\<close>: the \<open>ok\<close> flag, the status and its text, and \<open>res.blob()\<close>.\<close>

record FetchResponse =
  ok :: bool
  status :: nat
  statusText :: jsstring
  blob :: "Blob promise"

text \<open>
  The world outside the program. \<open>generateVideos\<close> answers the request (prompt, count,
  aspect ratio) with a job, rejects, or never answers (\<open>None\<close>); \<open>getVideosOperation k\<close>
  is the answer of the poll number \<open>k\<close>; \<open>fetch\<close> answers for a URL; \<open>apiKey\<close> is the
  text that \<open>process.env.API_KEY\<close> gives in a template literal; \<open>uriErrorMessage\<close> is
  the message of the \<open>URIError\<close> of the JavaScript engine.
\<close>

record Env =
  generateVideos :: "jsstring \<Rightarrow> int \<Rightarrow> AspectRatio \<Rightarrow> (exn + Operation) option"
  getVideosOperation :: "nat \<Rightarrow> Operation \<Rightarrow> (exn + Operation) option"
  fetch :: "jsstring \<Rightarrow> FetchResponse promise"
  apiKey :: jsstring
  uriErrorMessage :: jsstring

text \<open>
  The polling loop \<open>while (!operation.done)\<close>. It has no bound: a job that never
  reports completion is the value \<open>None\<close>.
\<close>

partial_function (option) pollOperation ::
  "(nat \<Rightarrow> Operation \<Rightarrow> (exn + Operation) option) \<Rightarrow> nat \<Rightarrow> Operation \<Rightarrow>
   (exn + Operation) option"
where
  "pollOperation get k operation =
     (if opDone operation then Some (Inr operation)
      else (case get k operation of
              None \<Rightarrow> None
            | Some (Inl e) \<Rightarrow> Some (Inl e)
            | Some (Inr operation') \<Rightarrow> pollOperation get (Suc k) operation'))"

declare pollOperation.simps [code]

text \<open>The first half of \<open>generateVideoFromText\<close>: submit the request and poll.\<close>

definition awaitOperation ::
  "Env \<Rightarrow> jsstring \<Rightarrow> int \<Rightarrow> AspectRatio \<Rightarrow> (exn + Operation) option" where
  "awaitOperation env prompt n ar =
     (case generateVideos env prompt n ar of
        None \<Rightarrow> None
      | Some (Inl e) \<Rightarrow> Some (Inl e)
      | Some (Inr operation) \<Rightarrow> pollOperation (getVideosOperation env) 0 operation)"

text \<open>
  \<open>bloblToBase64\<close>: the promise is resolved by \<open>onload\<close> only, so it stays pending when
  the reader fails.
\<close>

definition bloblToBase64 :: "Blob \<Rightarrow> jsstring option promise" where
  "bloblToBase64 b =
     (case readAsDataURL b of
        Fulfilled t url \<Rightarrow> Fulfilled t (secondField url)
      | _ \<Rightarrow> Pending)"

text \<open>
  The body of the \<open>videos.map\<close> callback. A malformed \<open>uri\<close> makes it throw before its
  first \<open>await\<close>, at turn 0; what depends on the network settles at a later turn.
\<close>

definition fetchVideo :: "Env \<Rightarrow> GeneratedVideo \<Rightarrow> jsstring option promise" where
  "fetchVideo env generatedVideo =
     (case decodeURIComponent (uri generatedVideo) of
        None \<Rightarrow> Rejected 0 (Error (uriErrorMessage env))
      | Some url \<Rightarrow>
          (case fetch env (url @ utf16 ''&key='' @ apiKey env) of
             Pending \<Rightarrow> Pending
           | Rejected t e \<Rightarrow> Rejected (Suc t) e
           | Fulfilled t res \<Rightarrow>
               if \<not> ok res
               then Rejected (Suc t)
                      (Error (utf16 ''Failed to fetch video: '' @ natToString (status res)
                                @ utf16 '' '' @ statusText res))
               else (case blob res of
                       Pending \<Rightarrow> Pending
                     | Rejected t' e \<Rightarrow> Rejected (Suc t + t') e
                     | Fulfilled t' b \<Rightarrow>
                         (case bloblToBase64 b of
                            Pending \<Rightarrow> Pending
                          | Rejected t'' e \<Rightarrow> Rejected (Suc t + t' + t'') e
                          | Fulfilled t'' s \<Rightarrow> Fulfilled (Suc t + t' + t'') s))))"

text \<open>
  \<open>await Promise.all(...)\<close>: it throws the rejection of the item that rejects first (of
  two items that reject at the same turn, the one that comes first in the list); with no
  rejection it returns all the values in order, once every item is fulfilled, and never
  returns (\<open>None\<close>) when some item stays pending.
\<close>

fun firstRejection :: "'a promise list \<Rightarrow> (nat \<times> exn) option" where
  "firstRejection [] = None"
| "firstRejection (p # ps) =
     (case p of
        Rejected t e \<Rightarrow>
          (case firstRejection ps of
             None \<Rightarrow> Some (t, e)
           | Some (t', e') \<Rightarrow> if t' < t then Some (t', e') else Some (t, e))
      | _ \<Rightarrow> firstRejection ps)"

fun fulfilledValues :: "'a promise list \<Rightarrow> 'a list option" where
  "fulfilledValues [] = Some []"
| "fulfilledValues (p # ps) =
     (case p of
        Fulfilled t x \<Rightarrow> map_option (Cons x) (fulfilledValues ps)
      | _ \<Rightarrow> None)"

definition promiseAll :: "'a promise list \<Rightarrow> (exn + 'a list) option" where
  "promiseAll ps =
     (case firstRejection ps of
        Some (t, e) \<Rightarrow> Some (Inl e)
      | None \<Rightarrow> map_option Inr (fulfilledValues ps))"

text \<open>The second half of \<open>generateVideoFromText\<close>: what it does with the finished job.\<close>

definition videosOfOperation ::
  "Env \<Rightarrow> Operation \<Rightarrow> (exn + jsstring option list) option" where
  "videosOfOperation env operation =
     (case response operation of
        None \<Rightarrow> Some (Inl (Error (utf16 ''No videos generated'')))
      | Some r \<Rightarrow>
          (case generatedVideos r of
             None \<Rightarrow> Some (Inl (Error (utf16 ''No videos generated'')))
           | Some vs \<Rightarrow>
               if vs = [] then Some (Inl (Error (utf16 ''No videos generated'')))
               else promiseAll (map (fetchVideo env) vs)))"

definition generateVideoFromText ::
  "Env \<Rightarrow> jsstring \<Rightarrow> int \<Rightarrow> AspectRatio \<Rightarrow> (exn + jsstring option list) option" where
  "generateVideoFromText env prompt n ar =
     (case awaitOperation env prompt n ar of
        None \<Rightarrow> None
      | Some (Inl e) \<Rightarrow> Some (Inl e)
      | Some (Inr operation) \<Rightarrow> videosOfOperation env operation)"

section \<open>The application state and its handlers (App.tsx)\<close>

record App =
  videos :: "Video list"
  playingVideo :: "Video option"
  editingVideo :: "Video option"
  isSaving :: bool
  searchQuery :: jsstring
  generationError :: "ErrorDetails option"

text \<open>
  The \<open>catch\<close> block of \<open>generateAndAddNewVideos\<close>, with the three record literals it
  assigns to \<open>errorDetails\<close>.
\<close>

definition apiKeyDetails :: ErrorDetails where
  "apiKeyDetails =
     \<lparr>errTitle = utf16 ''Generation Failed'',
      errMessages = [utf16 ''Veo 3 is only available on the Paid Tier.'',
                     utf16 ''Please select your Cloud Project to get started.''],
      errType = api_key\<rparr>"

definition generationFailedDetails :: ErrorDetails where
  "generationFailedDetails =
     \<lparr>errTitle = utf16 ''Generation Failed'',
      errMessages = [utf16 ''The model did not return any video.'',
        utf16 ''This could be due to your prompt. Please try a different prompt.''],
      errType = generation_failed\<rparr>"

definition networkDetails :: ErrorDetails where
  "networkDetails =
     \<lparr>errTitle = utf16 ''Download Failed'',
      errMessages = [utf16 ''The generated video could not be downloaded.'',
                     utf16 ''Please check your network connection and try again.''],
      errType = network\<rparr>"

definition classifyError :: "exn \<Rightarrow> ErrorDetails" where
  "classifyError error =
     (let errorDetails = apiKeyDetails
      in case error of
           Error message \<Rightarrow>
             if str_includes message (utf16 ''No videos generated'')
             then generationFailedDetails
             else if str_includes message (utf16 ''Failed to fetch video'')
             then networkDetails
             else errorDetails
         | NonError \<Rightarrow> errorDetails)"

text \<open>
  The \<open>videoObjects.map\<close> of \<open>generateAndAddNewVideos\<close>; \<open>randomUUID index\<close> is the
  identifier drawn for the element at \<open>index\<close>.
\<close>

definition newVideoAt ::
  "(nat \<Rightarrow> jsstring) \<Rightarrow> int \<Rightarrow> jsstring \<Rightarrow> jsstring \<Rightarrow> nat \<times> jsstring option \<Rightarrow> Video"
where
  "newVideoAt randomUUID n baseTitle baseDescription iv =
     (case iv of (index, videoSrc) \<Rightarrow>
        \<lparr>id' = randomUUID index,
         videoUrl = utf16 ''data:video/mp4;base64,'' @ templateText videoSrc,
         title = (if n > 1
                  then baseTitle @ utf16 '' ('' @ natToString (index + 1) @ utf16 ''/''
                         @ numToString n @ utf16 '')''
                  else baseTitle),
         description = baseDescription\<rparr>)"

definition tryGenerate ::
  "Env \<Rightarrow> (nat \<Rightarrow> jsstring) \<Rightarrow> jsstring \<Rightarrow> int \<Rightarrow> jsstring \<Rightarrow> jsstring \<Rightarrow> AspectRatio \<Rightarrow>
   (exn + Video list) option" where
  "tryGenerate env randomUUID prompt n baseTitle baseDescription ar =
     (case generateVideoFromText env prompt n ar of
        None \<Rightarrow> None
      | Some (Inl e) \<Rightarrow> Some (Inl e)
      | Some (Inr videoObjects) \<Rightarrow>
          if videoObjects = []
          then Some (Inl (Error (utf16 ''Video generation returned no data.'')))
          else Some (Inr (map (newVideoAt randomUUID n baseTitle baseDescription)
                            (enumerate 0 videoObjects))))"

definition generateAndAddNewVideos ::
  "Env \<Rightarrow> (nat \<Rightarrow> jsstring) \<Rightarrow> jsstring \<Rightarrow> int \<Rightarrow> jsstring \<Rightarrow> jsstring \<Rightarrow> AspectRatio \<Rightarrow>
   App \<Rightarrow> App option" where
  "generateAndAddNewVideos env randomUUID prompt n baseTitle baseDescription ar st =
     (let st1 = st\<lparr>isSaving := True, generationError := None\<rparr> in
      case tryGenerate env randomUUID prompt n baseTitle baseDescription ar of
        None \<Rightarrow> None
      | Some (Inr newVideos) \<Rightarrow>
          Some (st1\<lparr>videos := newVideos @ videos st1,
                    playingVideo := (case newVideos of [] \<Rightarrow> None | v # _ \<Rightarrow> Some v),
                    isSaving := False\<rparr>)
      | Some (Inl error) \<Rightarrow>
          Some (st1\<lparr>generationError := Some (classifyError error), isSaving := False\<rparr>))"

text \<open>The prompt that \<open>handleSaveEdit\<close> builds in \<open>promptText\<close>.\<close>

definition promptText :: "Video \<Rightarrow> Options \<Rightarrow> jsstring" where
  "promptText originalVideo opts =
     (let p0 = description originalVideo;
          p1 = (if quality opts = Q_quality
                then p0 @ [NL, NL] @ utf16 ''high quality, cinematic, 4k'' else p0);
          p2 = (if duration opts = D_short
                then p1 @ [NL, NL] @ utf16 ''(Short video, ~4 seconds)''
                else if duration opts = D_medium
                then p1 @ [NL, NL] @ utf16 ''(Medium video, ~10 seconds)''
                else if duration opts = D_long
                then p1 @ [NL, NL] @ utf16 ''(Long video, ~15 seconds)''
                else p1)
      in p2)"

definition handleSaveEdit ::
  "Env \<Rightarrow> (nat \<Rightarrow> jsstring) \<Rightarrow> Video \<Rightarrow> Options \<Rightarrow> App \<Rightarrow> App option" where
  "handleSaveEdit env randomUUID originalVideo opts st =
     generateAndAddNewVideos env randomUUID
       (promptText originalVideo opts)
       (numberOfVideos opts)
       (utf16 ''Remix of '' @ [DQ] @ title originalVideo @ [DQ])
       (description originalVideo)
       (aspectRatio opts)
       (st\<lparr>editingVideo := None\<rparr>)"

text \<open>
  Pressing the save button of the editor: \<open>handleSave\<close> passes its two arguments to
  \<open>onSave\<close>, which is \<open>handleSaveEdit\<close>.
\<close>

definition remixPrompt :: "EditVideoPage \<Rightarrow> jsstring" where
  "remixPrompt p = (case handleSave p of (updatedVideo, opts) \<Rightarrow> promptText updatedVideo opts)"

definition saveRemix ::
  "Env \<Rightarrow> (nat \<Rightarrow> jsstring) \<Rightarrow> EditVideoPage \<Rightarrow> App \<Rightarrow> App option" where
  "saveRemix env randomUUID p st =
     (case handleSave p of (updatedVideo, opts) \<Rightarrow>
        handleSaveEdit env randomUUID updatedVideo opts st)"

text \<open>
  \<open>file.name.replace(/\.[^/.]+$/, '')\<close>: the leftmost dot that is followed, up to the
  end of the name, by one or more code units other than slash and dot is removed with
  all that follows it.
\<close>

fun stripExtension :: "jsstring \<Rightarrow> jsstring" where
  "stripExtension [] = []"
| "stripExtension (c # cs) =
     (if c = 0x2E \<and> cs \<noteq> [] \<and> list_all (\<lambda>d. d \<noteq> 0x2F \<and> d \<noteq> 0x2E) cs
      then []
      else c # stripExtension cs)"

record File =
  name :: jsstring

text \<open>
  \<open>handleFileChange\<close>: \<open>file\<close> is \<open>event.target.files?.[0]\<close>, \<open>objectUrl\<close> the result of
  \<open>URL.createObjectURL\<close> and \<open>uuid\<close> the result of \<open>randomUUID\<close>.
\<close>

definition handleFileChange :: "File option \<Rightarrow> jsstring \<Rightarrow> jsstring \<Rightarrow> App \<Rightarrow> App" where
  "handleFileChange file objectUrl uuid st =
     (case file of
        None \<Rightarrow> st
      | Some f \<Rightarrow>
          (let newVideo = \<lparr>id' = uuid, videoUrl = objectUrl,
                           title = stripExtension (name f),
                           description = utf16 ''A user-uploaded video.''\<rparr>
           in st\<lparr>videos := newVideo # videos st\<rparr>))"


section \<open>The specification's wording, for comparison\<close>

text \<open>
  Prompt composition as the specification words it: the base description, then the
  quality suffix, then the duration suffix, then the instruction phrase when the mask is
  active. The duration suffix is an argument.
\<close>

definition spec_qualitySuffix :: "Quality \<Rightarrow> jsstring" where
  "spec_qualitySuffix q =
     (case q of
        Q_fast \<Rightarrow> []
      | Q_quality \<Rightarrow> [NL, NL] @ utf16 ''high quality, cinematic, 4k'')"

definition spec_instructionPhrase :: "bool \<Rightarrow> jsstring \<Rightarrow> jsstring" where
  "spec_instructionPhrase maskActive instruction =
     (if maskActive
      then [NL, NL] @ utf16 ''In the highlighted area, please '' @ instruction @ utf16 ''.''
      else [])"

definition spec_prompt :: "jsstring \<Rightarrow> Quality \<Rightarrow> jsstring \<Rightarrow> bool \<Rightarrow> jsstring \<Rightarrow> jsstring"
where
  "spec_prompt base q durationSuffix maskActive instruction =
     base @ spec_qualitySuffix q @ durationSuffix
       @ spec_instructionPhrase maskActive instruction"

text \<open>
  Containment without regard to case: some stretch of the text has the length of the
  search string and agrees with it letter by letter, where two code units agree when
  they are equal or one is a capital letter and the other its small form. The capital
  letters listed are those below U+0100: A to Z and U+00C0 to U+00DE (the multiplication
  sign U+00D7 apart); the small form of each is 0x20 above it.
\<close>

definition isCapital :: "codeUnit \<Rightarrow> bool" where
  "isCapital u = ((0x41 \<le> u \<and> u \<le> 0x5A) \<or> (0xC0 \<le> u \<and> u \<le> 0xDE \<and> u \<noteq> 0xD7))"





text \<open>A finished job whose result list is empty or absent.\<close>

definition noResults :: "Operation \<Rightarrow> bool" where
  "noResults operation =
     (case response operation of
        None \<Rightarrow> True
      | Some r \<Rightarrow> (case generatedVideos r of None \<Rightarrow> True | Some vs \<Rightarrow> vs = []))"

section \<open>A notion for the proofs\<close>

text \<open>
  The small form of a capital letter below U+0100 (the code unit 0x20 above it), and
  every other code unit itself.
\<close>

definition lowerUnit :: "codeUnit \<Rightarrow> codeUnit" where
  "lowerUnit u = (if isCapital u then u + 0x20 else u)"

section \<open>Example inputs\<close>

definition beach :: Video where
  "beach = \<lparr>id' = utf16 ''v1'', videoUrl = utf16 ''https://example.org/beach.mp4'',
            title = utf16 ''Beach'', description = utf16 ''A beach at sunset''\<rparr>"

definition forest :: Video where
  "forest = \<lparr>id' = utf16 ''v2'', videoUrl = utf16 ''https://example.org/forest.mp4'',
             title = utf16 ''Forest'', description = utf16 ''Walking on the BEACH road''\<rparr>"

definition gallery :: App where
  "gallery = \<lparr>videos = [beach, forest], playingVideo = None, editingVideo = None,
              isSaving = False, searchQuery = [], generationError = None\<rparr>"




text \<open>
  A world whose job is pending when submitted and finished at the first poll, with the
  given result list. Its \<open>fetch\<close> answers 503 for the URL of the handle \<open>bad\<close> and
  200, with a body that reads as a data URL of the base64 text \<open>QUJD\<close>, for every other
  URL. The \<open>URIError\<close> message is that of V8.
\<close>

definition finishedWith :: "GeneratedVideo list option \<Rightarrow> Env" where
  "finishedWith result =
     \<lparr>generateVideos = (\<lambda>prompt n ar. Some (Inr \<lparr>opDone = False, response = None\<rparr>)),
      getVideosOperation = (\<lambda>k operation.
         Some (Inr \<lparr>opDone = True, response = Some \<lparr>generatedVideos = result\<rparr>\<rparr>)),
      fetch = (\<lambda>u.
         if u = utf16 ''bad&key=K''
         then Fulfilled 1 \<lparr>ok = False, status = 503,
                           statusText = utf16 ''Service Unavailable'', blob = Pending\<rparr>
         else Fulfilled 1 \<lparr>ok = True, status = 200, statusText = utf16 ''OK'',
                blob = Fulfilled 1
                  \<lparr>readAsDataURL = Fulfilled 1 (utf16 ''data:video/mp4;base64,QUJD'')\<rparr>\<rparr>),
      apiKey = utf16 ''K'',
      uriErrorMessage = utf16 ''URI malformed''\<rparr>"

definition remixOptions :: "int \<Rightarrow> Options" where
  "remixOptions n =
     \<lparr>numberOfVideos = n, quality = Q_fast, duration = D_medium, aspectRatio = AR_16_9\<rparr>"

definition maskedEdit :: EditVideoPage where
  "maskedEdit = \<lparr>video = beach, editPrompt = utf16 ''add a cat'', isMaskActive = True,
                 options = (remixOptions 1)\<lparr>quality := Q_quality\<rparr>\<rparr>"

section \<open>Literals\<close>



section \<open>Variation count\<close>

lemma countAction_range:
  "1 \<le> numberOfVideos (options p) \<and> numberOfVideos (options p) \<le> 4 \<Longrightarrow>
   1 \<le> numberOfVideos (options (countAction p a)) \<and>
   numberOfVideos (options (countAction p a)) \<le> 4"
  by (cases a) (simp_all add: incrementVideos_def decrementVideos_def)

lemma foldl_countAction_range:
  "1 \<le> numberOfVideos (options p) \<and> numberOfVideos (options p) \<le> 4 \<Longrightarrow>
   1 \<le> numberOfVideos (options (foldl countAction p as)) \<and>
   numberOfVideos (options (foldl countAction p as)) \<le> 4"
proof (induction as arbitrary: p)
  case Nil
  then show ?case by simp
next
  case (Cons a as)
  from countAction_range [OF Cons.prems]
  show ?case by (simp add: Cons.IH)
qed

text \<open>
  C7. Starting from the initial count 1, after any finite sequence of increment and
  decrement actions the variation count is at least 1 and at most 4.
\<close>

theorem numberOfVideos_clamped:
  "1 \<le> numberOfVideos (options (foldl countAction (initialEditVideoPage v) as)) \<and>
   numberOfVideos (options (foldl countAction (initialEditVideoPage v) as)) \<le> 4"
  by (rule foldl_countAction_range) (simp add: initialEditVideoPage_def)

theorem numberOfVideos_clamped_witness:
  "numberOfVideos (options (foldl countAction (initialEditVideoPage beach)
     [Increment, Increment, Increment, Increment, Increment, Decrement])) = 3 \<and>
   numberOfVideos (options (foldl countAction (initialEditVideoPage beach)
     [Decrement, Decrement])) = 1"
  using numberOfVideos_clamped [of beach "[Decrement, Decrement]"]
  by (simp add: initialEditVideoPage_def incrementVideos_def decrementVideos_def)

section \<open>Prompt composition\<close>

text \<open>
  C1, as the code has it. The prompt submitted for a remix is the base description,
  followed by the instruction phrase when the mask is active and the instruction is not
  blank after trimming, followed by the quality suffix (none for \<open>fast\<close>), followed by the
  duration suffix, one fixed phrase for each of the three tiers. The function is total:
  the equation holds for every editor state.
\<close>

theorem remixPrompt_composition:
  "remixPrompt p =
     description (video p)
     @ (if isMaskActive p \<and> trim (editPrompt p) \<noteq> []
        then [NL, NL] @ utf16 ''In the highlighted area, please '' @ editPrompt p @ utf16 ''.''
        else [])
     @ (case quality (options p) of
          Q_fast \<Rightarrow> []
        | Q_quality \<Rightarrow> [NL, NL] @ utf16 ''high quality, cinematic, 4k'')
     @ (case duration (options p) of
          D_short \<Rightarrow> [NL, NL] @ utf16 ''(Short video, ~4 seconds)''
        | D_medium \<Rightarrow> [NL, NL] @ utf16 ''(Medium video, ~10 seconds)''
        | D_long \<Rightarrow> [NL, NL] @ utf16 ''(Long video, ~15 seconds)'')"
  by (cases "quality (options p)"; cases "duration (options p)")
     (simp_all add: remixPrompt_def handleSave_def promptText_def Let_def)

lemma trim_add_a_cat: "trim (utf16 ''add a cat'') = utf16 ''add a cat''"
  by (simp add: trim_def isWhiteSpace_def utf16_def)

theorem remixPrompt_composition_witness:
  "remixPrompt maskedEdit =
     utf16 ''A beach at sunset'' @ [NL, NL]
     @ utf16 ''In the highlighted area, please add a cat.''
     @ [NL, NL] @ utf16 ''high quality, cinematic, 4k''
     @ [NL, NL] @ utf16 ''(Medium video, ~10 seconds)''"
proof -
  have ne: "trim (editPrompt maskedEdit) \<noteq> []"
    by (simp add: maskedEdit_def trim_add_a_cat) (simp add: utf16_def)
  have lit: "utf16 ''In the highlighted area, please '' @ utf16 ''add a cat'' @ utf16 ''.'' =
      utf16 ''In the highlighted area, please add a cat.''"
    by (simp add: utf16_def)
  from remixPrompt_composition [of maskedEdit] ne lit show ?thesis
    by (simp add: maskedEdit_def beach_def remixOptions_def)
qed

text \<open>
  C1, as stated, places the instruction phrase after the duration suffix. With the mask
  active, the instruction \<open>add a cat\<close>, quality \<open>quality\<close> and duration \<open>medium\<close>, the
  code puts the instruction phrase before the quality suffix, so its prompt differs from
  the stated order, whether the default tier \<open>medium\<close> is given no suffix or its phrase.
\<close>

theorem remixPrompt_order_counterexample:
  "remixPrompt maskedEdit =
     utf16 ''A beach at sunset'' @ [NL, NL]
     @ utf16 ''In the highlighted area, please add a cat.''
     @ [NL, NL] @ utf16 ''high quality, cinematic, 4k''
     @ [NL, NL] @ utf16 ''(Medium video, ~10 seconds)'' \<and>
   remixPrompt maskedEdit \<noteq>
     spec_prompt (description beach) Q_quality [] True (utf16 ''add a cat'') \<and>
   remixPrompt maskedEdit \<noteq>
     spec_prompt (description beach) Q_quality
       ([NL, NL] @ utf16 ''(Medium video, ~10 seconds)'') True (utf16 ''add a cat'')"
proof -
  have ne: "trim (utf16 ''add a cat'') \<noteq> []"
    unfolding trim_add_a_cat by (simp add: utf16_def)
  have v: "remixPrompt maskedEdit =
      utf16 ''A beach at sunset'' @ [NL, NL]
      @ utf16 ''In the highlighted area, please '' @ utf16 ''add a cat'' @ utf16 ''.''
      @ [NL, NL] @ utf16 ''high quality, cinematic, 4k''
      @ [NL, NL] @ utf16 ''(Medium video, ~10 seconds)''"
    using ne
    by (simp add: remixPrompt_def handleSave_def promptText_def Let_def maskedEdit_def
        beach_def remixOptions_def)
  show ?thesis
    unfolding v
    by (simp add: spec_prompt_def spec_qualitySuffix_def spec_instructionPhrase_def
        beach_def NL_def utf16_def)
qed

section \<open>The mask gate\<close>

text \<open>
  C6. On save, the instruction phrase is appended to the video's description exactly when
  the mask is active and the instruction is not blank after trimming; with the mask not
  active the saved description is the original one. The options are passed on as they
  are. Of the mask, \<open>handleSave\<close> reads the flag \<open>isMaskActive\<close> only: no geometry is
  among its inputs.
\<close>

theorem handleSave_mask_gate:
  "handleSave p =
     ((video p)\<lparr>description := description (video p)
         @ (if isMaskActive p \<and> trim (editPrompt p) \<noteq> []
            then [NL, NL] @ utf16 ''In the highlighted area, please '' @ editPrompt p
                   @ utf16 ''.''
            else [])\<rparr>,
      options p) \<and>
   (description (fst (handleSave p)) \<noteq> description (video p)
      \<longleftrightarrow> isMaskActive p \<and> trim (editPrompt p) \<noteq> []) \<and>
   handleSave (p\<lparr>isMaskActive := False\<rparr>) = (video p, options p)"
  by (simp add: handleSave_def)

theorem handleSave_mask_gate_witness:
  "description (fst (handleSave maskedEdit)) =
     utf16 ''A beach at sunset'' @ [NL, NL]
     @ utf16 ''In the highlighted area, please '' @ utf16 ''add a cat'' @ utf16 ''.'' \<and>
   handleSave (maskedEdit\<lparr>isMaskActive := False\<rparr>) = (beach, options maskedEdit)"
proof -
  have ne: "trim (utf16 ''add a cat'') \<noteq> []"
    unfolding trim_add_a_cat by (simp add: utf16_def)
  from handleSave_mask_gate [of maskedEdit] ne show ?thesis
    by (simp add: maskedEdit_def beach_def)
qed

section \<open>Upload\<close>

lemma stripExtension_final:
  "ext \<noteq> [] \<Longrightarrow> list_all (\<lambda>d. d \<noteq> 0x2F \<and> d \<noteq> 0x2E) ext \<Longrightarrow>
   stripExtension (base @ 0x2E # ext) = base"
  by (induction base) auto

lemma stripExtension_clip_mov: "stripExtension (utf16 ''clip.mov'') = utf16 ''clip''"
  by (simp add: utf16_def)

text \<open>
  C10. Uploading the file \<open>clip.mov\<close> puts one new record in front of the gallery list,
  titled \<open>clip\<close> and described as \<open>A user-uploaded video.\<close>; the records already in
  the list follow it unchanged, and nothing else of the state changes.
\<close>

theorem upload_clip_mov:
  "handleFileChange (Some \<lparr>name = utf16 ''clip.mov''\<rparr>) objectUrl uuid st =
     st\<lparr>videos := \<lparr>id' = uuid, videoUrl = objectUrl, title = utf16 ''clip'',
                     description = utf16 ''A user-uploaded video.''\<rparr> # videos st\<rparr>"
  by (simp add: handleFileChange_def stripExtension_clip_mov)

theorem upload_clip_mov_witness:
  "videos (handleFileChange (Some \<lparr>name = utf16 ''clip.mov''\<rparr>) (utf16 ''blob:1'')
      (utf16 ''u-1'') gallery) =
     [\<lparr>id' = utf16 ''u-1'', videoUrl = utf16 ''blob:1'', title = utf16 ''clip'',
       description = utf16 ''A user-uploaded video.''\<rparr>, beach, forest]"
  using upload_clip_mov [of "utf16 ''blob:1''" "utf16 ''u-1''" gallery]
  by (simp add: gallery_def)

section \<open>Error classification\<close>

lemma str_includes_iff: "str_includes t p \<longleftrightarrow> (\<exists>before after. t = before @ p @ after)"
  by (induction t) (auto simp: prefix_def Cons_eq_append_conv)

text \<open>
  C4. The category of a caught value depends on its message only: \<open>generation_failed\<close>
  when the message contains \<open>No videos generated\<close>, otherwise \<open>network\<close> when it
  contains \<open>Failed to fetch video\<close>, and \<open>api_key\<close> for every other error and for every
  value that is not an error, each with its fixed display text. The category \<open>unknown\<close>
  is never produced.
\<close>

theorem classifyError_by_substring:
  "classifyError e =
     (case e of
        Error message \<Rightarrow>
          if (\<exists>before after. message = before @ utf16 ''No videos generated'' @ after)
          then generationFailedDetails
          else if (\<exists>before after. message = before @ utf16 ''Failed to fetch video'' @ after)
          then networkDetails
          else apiKeyDetails
      | NonError \<Rightarrow> apiKeyDetails) \<and>
   errType generationFailedDetails = generation_failed \<and>
   errType networkDetails = network \<and>
   errType apiKeyDetails = api_key \<and>
   errType (classifyError e) \<noteq> unknown"
  by (cases e)
     (simp_all add: classifyError_def str_includes_iff generationFailedDetails_def
        networkDetails_def apiKeyDetails_def)

lemma classify_no_data:
  "classifyError (Error (utf16 ''Video generation returned no data.'')) = apiKeyDetails"
  by (simp add: classifyError_def utf16_def)

lemma classify_503:
  "classifyError (Error (utf16 ''Failed to fetch video: 503 Service Unavailable'')) =
     networkDetails"
  by (simp add: classifyError_def utf16_def)

theorem classifyError_by_substring_witness:
  "classifyError (Error (utf16 ''Video generation returned no data.'')) = apiKeyDetails \<and>
   classifyError (Error (utf16 ''Failed to fetch video: 503 Service Unavailable'')) =
     networkDetails \<and>
   classifyError NonError = apiKeyDetails"
  using classifyError_by_substring [of NonError] classify_no_data classify_503
  by simp

section \<open>Search filter\<close>

lemma neq_215: "(u :: codeUnit) \<noteq> 0xD7 \<longleftrightarrow> unat u \<noteq> 0xD7"
  by (simp add: word_unat_eq_iff)

lemma isCapital_nat:
  "isCapital u \<longleftrightarrow>
     (0x41 \<le> unat u \<and> unat u \<le> 0x5A) \<or> (0xC0 \<le> unat u \<and> unat u \<le> 0xDE \<and> unat u \<noteq> 0xD7)"
  unfolding isCapital_def word_le_nat_alt neq_215
  by simp

lemma unat_plus_32: "unat u \<le> 0xDE \<Longrightarrow> unat ((u :: codeUnit) + 0x20) = unat u + 0x20"
proof -
  assume "unat u \<le> 0xDE"
  then have "unat u + unat (0x20 :: codeUnit) < 2 ^ LENGTH(16)" by simp
  then have "unat (u + 0x20) = unat u + unat (0x20 :: codeUnit)"
    by (simp only: unat_add_lem)
  then show ?thesis by simp
qed

lemma isCapital_plus_32: "isCapital u \<Longrightarrow> \<not> isCapital (u + 0x20)"
proof -
  assume c: "isCapital u"
  then have "unat u \<le> 0xDE" by (auto simp: isCapital_nat)
  then have "unat (u + 0x20) = unat u + 0x20" by (rule unat_plus_32)
  with c show ?thesis by (auto simp: isCapital_nat)
qed

lemma lowerUnit_not_capital: "\<not> isCapital (lowerUnit u)"
  by (simp add: lowerUnit_def isCapital_plus_32)
















section \<open>The orchestrator\<close>

lemma pollOperation_Some:
  "pollOperation get k operation = Some r \<Longrightarrow> \<forall>operation'. r = Inr operation' \<longrightarrow> opDone operation'"
  by (induction rule: pollOperation.raw_induct [rotated 1, consumes 1])
     (auto split: if_splits option.splits sum.splits)

lemma pollOperation_done:
  "pollOperation get k operation = Some (Inr operation') \<Longrightarrow> opDone operation'"
  using pollOperation_Some by blast

lemma firstRejection_exists:
  "Rejected t0 e0 \<in> set ps \<Longrightarrow> \<exists>t e. firstRejection ps = Some (t, e)"
  by (induction ps) (auto split: promise.splits option.splits)

lemma firstRejection_earliest:
  "firstRejection ps = Some (t, e) \<Longrightarrow>
   Rejected t e \<in> set ps \<and> (\<forall>t' e'. Rejected t' e' \<in> set ps \<longrightarrow> t \<le> t')"
proof (induction ps arbitrary: t e)
  case Nil
  then show ?case by simp
next
  case (Cons p ps)
  show ?case
  proof (cases p)
    case Pending
    with Cons show ?thesis by auto
  next
    case (Fulfilled tf x)
    with Cons show ?thesis by auto
  next
    case (Rejected tr er)
    show ?thesis
    proof (cases "firstRejection ps")
      case None
      then have "\<And>t' e'. Rejected t' e' \<notin> set ps"
        using firstRejection_exists by fastforce
      with Cons.prems Rejected None show ?thesis by auto
    next
      case (Some te)
      obtain t1 e1 where te: "te = (t1, e1)" by (cases te)
      from Cons.IH [of t1 e1] Some te
      have ih: "Rejected t1 e1 \<in> set ps" "\<And>t' e'. Rejected t' e' \<in> set ps \<Longrightarrow> t1 \<le> t'"
        by auto
      show ?thesis
      proof (cases "t1 < tr")
        case True
        with Cons.prems Rejected Some te have "t = t1" "e = e1" by auto
        with ih True Rejected show ?thesis by auto
      next
        case False
        with Cons.prems Rejected Some te have "t = tr" "e = er" by auto
        moreover have "tr \<le> t'" if "Rejected t' e' \<in> set ps" for t' e'
          using ih(2) [OF that] False by simp
        ultimately show ?thesis using Rejected by auto
      qed
    qed
  qed
qed

lemma fulfilledValues_all:
  "fulfilledValues ps = Some xs \<Longrightarrow> list_all2 (\<lambda>p x. \<exists>t. p = Fulfilled t x) ps xs"
  by (induction ps arbitrary: xs) (auto split: promise.splits)

lemma promiseAll_rejects:
  assumes "Rejected t0 e0 \<in> set ps"
  shows "\<exists>t e. promiseAll ps = Some (Inl e) \<and> Rejected t e \<in> set ps \<and>
           (\<forall>t' e'. Rejected t' e' \<in> set ps \<longrightarrow> t \<le> t')"
proof -
  from firstRejection_exists [OF assms] obtain t e where f: "firstRejection ps = Some (t, e)"
    by blast
  from firstRejection_earliest [OF f] f show ?thesis
    by (auto simp: promiseAll_def)
qed

lemma promiseAll_fulfils:
  "promiseAll ps = Some (Inr xs) \<Longrightarrow> list_all2 (\<lambda>p x. \<exists>t. p = Fulfilled t x) ps xs"
  by (auto simp: promiseAll_def fulfilledValues_all split: option.splits)

lemma promiseAll_two:
  "promiseAll [Fulfilled t1 x1, Fulfilled t2 x2] = Some (Inr [x1, x2])"
  by (simp add: promiseAll_def)

lemma fetchVideo_not_ok:
  assumes "decodeURIComponent (uri gv) = Some url"
    and "fetch env (url @ utf16 ''&key='' @ apiKey env) = Fulfilled t res"
    and "\<not> ok res"
  shows "fetchVideo env gv =
     Rejected (Suc t) (Error (utf16 ''Failed to fetch video: '' @ natToString (status res)
                                @ utf16 '' '' @ statusText res))"
  using assms by (simp add: fetchVideo_def)

lemma prefix_failed: "prefix (utf16 ''Failed to fetch video'') (utf16 ''Failed to fetch video: '' @ rest)"
proof -
  have "utf16 ''Failed to fetch video: '' = utf16 ''Failed to fetch video'' @ utf16 '': ''"
    by (simp add: utf16_def)
  then show ?thesis by simp
qed

subsection \<open>The example world\<close>

lemma awaitOperation_finishedWith:
  "awaitOperation (finishedWith result) prompt n ar =
     Some (Inr \<lparr>opDone = True, response = Some \<lparr>generatedVideos = result\<rparr>\<rparr>)"
  by (simp add: awaitOperation_def finishedWith_def pollOperation.simps)

lemma fetch_finishedWith_bad:
  "fetch (finishedWith result) (utf16 ''bad'' @ utf16 ''&key='' @ apiKey (finishedWith result)) =
     Fulfilled 1 \<lparr>ok = False, status = 503, statusText = utf16 ''Service Unavailable'',
                  blob = Pending\<rparr>"
  by (simp add: finishedWith_def utf16_def)

lemma fetchVideo_finishedWith_bad:
  "fetchVideo (finishedWith result) \<lparr>uri = utf16 ''bad''\<rparr> =
     Rejected 2 (Error (utf16 ''Failed to fetch video: 503 Service Unavailable''))"
proof -
  have d: "decodeURIComponent (utf16 ''bad'') = Some (utf16 ''bad'')"
    by code_simp
  have n: "utf16 ''Failed to fetch video: '' @ natToString 503 @ utf16 '' ''
      @ utf16 ''Service Unavailable'' = utf16 ''Failed to fetch video: 503 Service Unavailable''"
    by code_simp
  show ?thesis
    by (simp add: fetchVideo_def d fetch_finishedWith_bad n)
qed

lemma fetchVideo_finishedWith_percent:
  "fetchVideo (finishedWith result) \<lparr>uri = utf16 ''%''\<rparr> =
     Rejected 0 (Error (utf16 ''URI malformed''))"
proof -
  have d: "decodeURIComponent (utf16 ''%'') = None"
    by code_simp
  show ?thesis
    by (simp add: fetchVideo_def d) (simp add: finishedWith_def)
qed

lemma fetchVideo_finishedWith_a:
  "fetchVideo (finishedWith result) \<lparr>uri = utf16 ''a''\<rparr> = Fulfilled 4 (Some (utf16 ''QUJD''))"
proof -
  have d: "decodeURIComponent (utf16 ''a'') = Some (utf16 ''a'')"
    by code_simp
  have f: "fetch (finishedWith result)
      (utf16 ''a'' @ utf16 ''&key='' @ apiKey (finishedWith result)) =
      Fulfilled 1 \<lparr>ok = True, status = 200, statusText = utf16 ''OK'',
        blob = Fulfilled 1
          \<lparr>readAsDataURL = Fulfilled 1 (utf16 ''data:video/mp4;base64,QUJD'')\<rparr>\<rparr>"
    by (simp add: finishedWith_def utf16_def)
  have s: "secondField (utf16 ''data:video/mp4;base64,QUJD'') = Some (utf16 ''QUJD'')"
    by code_simp
  show ?thesis
    by (simp add: fetchVideo_def d f bloblToBase64_def s)
qed

lemma fetchVideo_finishedWith_b:
  "fetchVideo (finishedWith result) \<lparr>uri = utf16 ''b''\<rparr> = Fulfilled 4 (Some (utf16 ''QUJD''))"
proof -
  have d: "decodeURIComponent (utf16 ''b'') = Some (utf16 ''b'')"
    by code_simp
  have f: "fetch (finishedWith result)
      (utf16 ''b'' @ utf16 ''&key='' @ apiKey (finishedWith result)) =
      Fulfilled 1 \<lparr>ok = True, status = 200, statusText = utf16 ''OK'',
        blob = Fulfilled 1
          \<lparr>readAsDataURL = Fulfilled 1 (utf16 ''data:video/mp4;base64,QUJD'')\<rparr>\<rparr>"
    by (simp add: finishedWith_def utf16_def)
  have s: "secondField (utf16 ''data:video/mp4;base64,QUJD'') = Some (utf16 ''QUJD'')"
    by code_simp
  show ?thesis
    by (simp add: fetchVideo_def d f bloblToBase64_def s)
qed

subsection \<open>No results\<close>

text \<open>
  C3. When the job has finished with an empty or absent result list,
  \<open>generateVideoFromText\<close> throws the error \<open>No videos generated\<close>, and
  \<open>generateAndAddNewVideos\<close> ends with the error banner of the kind \<open>generation_failed\<close>,
  the video list as it was.
\<close>

theorem no_videos_generated:
  assumes "awaitOperation env prompt n ar = Some (Inr operation)"
    and "noResults operation"
  shows "generateVideoFromText env prompt n ar =
           Some (Inl (Error (utf16 ''No videos generated''))) \<and>
         generateAndAddNewVideos env randomUUID prompt n baseTitle baseDescription ar st =
           Some (st\<lparr>isSaving := False, generationError := Some generationFailedDetails\<rparr>) \<and>
         errType generationFailedDetails = generation_failed"
proof -
  from assms(2) have "videosOfOperation env operation =
      Some (Inl (Error (utf16 ''No videos generated'')))"
    by (auto simp: videosOfOperation_def noResults_def split: option.splits)
  with assms(1) have g: "generateVideoFromText env prompt n ar =
      Some (Inl (Error (utf16 ''No videos generated'')))"
    by (simp add: generateVideoFromText_def)
  have "str_includes (utf16 ''No videos generated'') (utf16 ''No videos generated'')"
    unfolding str_includes_iff by (metis append_Nil append_Nil2)
  then have c: "classifyError (Error (utf16 ''No videos generated'')) = generationFailedDetails"
    by (simp add: classifyError_def)
  from g c show ?thesis
    by (simp add: generateAndAddNewVideos_def tryGenerate_def generationFailedDetails_def)
qed

theorem no_videos_generated_witness:
  "generateVideoFromText (finishedWith (Some [])) (utf16 ''a cat'') 1 AR_16_9 =
     Some (Inl (Error (utf16 ''No videos generated''))) \<and>
   generateAndAddNewVideos (finishedWith (Some [])) natToString (utf16 ''a cat'') 1
       (utf16 ''t'') (utf16 ''d'') AR_16_9 gallery =
     Some (gallery\<lparr>isSaving := False, generationError := Some generationFailedDetails\<rparr>)"
proof -
  have h1: "awaitOperation (finishedWith (Some [])) (utf16 ''a cat'') 1 AR_16_9 =
      Some (Inr \<lparr>opDone = True, response = Some \<lparr>generatedVideos = Some []\<rparr>\<rparr>)"
    by (rule awaitOperation_finishedWith)
  have h2: "noResults \<lparr>opDone = True, response = Some \<lparr>generatedVideos = Some []\<rparr>\<rparr>"
    by (simp add: noResults_def)
  from no_videos_generated [OF h1 h2, of natToString "utf16 ''t''" "utf16 ''d''" gallery]
  show ?thesis by simp
qed

subsection \<open>A failed fetch in a batch\<close>

text \<open>
  C2, as stated, fails when another item of the batch rejects first with another error.
  The job finishes with the handles \<open>bad\<close> and \<open>%\<close>. The fetch of \<open>bad\<close> answers 503, so
  that item rejects with \<open>Failed to fetch video: 503 Service Unavailable\<close>; but \<open>%\<close> is
  no valid escape, so the second item has thrown a \<open>URIError\<close> before any fetch was
  answered. The batch rejects with the \<open>URIError\<close>, whose message does not contain
  \<open>Failed to fetch video\<close>, and the banner is of the kind \<open>api_key\<close>.
\<close>

theorem batch_uri_error_counterexample:
  "fetchVideo (finishedWith (Some [\<lparr>uri = utf16 ''bad''\<rparr>, \<lparr>uri = utf16 ''%''\<rparr>]))
     \<lparr>uri = utf16 ''bad''\<rparr> =
     Rejected 2 (Error (utf16 ''Failed to fetch video: 503 Service Unavailable'')) \<and>
   generateVideoFromText (finishedWith (Some [\<lparr>uri = utf16 ''bad''\<rparr>, \<lparr>uri = utf16 ''%''\<rparr>]))
     (utf16 ''a cat'') 2 AR_16_9 = Some (Inl (Error (utf16 ''URI malformed''))) \<and>
   \<not> str_includes (utf16 ''URI malformed'') (utf16 ''Failed to fetch video'') \<and>
   generateAndAddNewVideos (finishedWith (Some [\<lparr>uri = utf16 ''bad''\<rparr>, \<lparr>uri = utf16 ''%''\<rparr>]))
     natToString (utf16 ''a cat'') 2 (utf16 ''t'') (utf16 ''d'') AR_16_9 gallery =
     Some (gallery\<lparr>isSaving := False, generationError := Some apiKeyDetails\<rparr>)"
proof -
  let ?env = "finishedWith (Some [\<lparr>uri = utf16 ''bad''\<rparr>, \<lparr>uri = utf16 ''%''\<rparr>])"
  have g: "generateVideoFromText ?env (utf16 ''a cat'') 2 AR_16_9 =
      Some (Inl (Error (utf16 ''URI malformed'')))"
    by (simp add: generateVideoFromText_def awaitOperation_finishedWith videosOfOperation_def
        fetchVideo_finishedWith_bad fetchVideo_finishedWith_percent promiseAll_def)
  have n1: "\<not> str_includes (utf16 ''URI malformed'') (utf16 ''Failed to fetch video'')"
    by code_simp
  have n2: "\<not> str_includes (utf16 ''URI malformed'') (utf16 ''No videos generated'')"
    by code_simp
  from n1 n2 have c: "classifyError (Error (utf16 ''URI malformed'')) = apiKeyDetails"
    by (simp add: classifyError_def)
  from g c have "generateAndAddNewVideos ?env natToString (utf16 ''a cat'') 2 (utf16 ''t'')
      (utf16 ''d'') AR_16_9 gallery =
      Some (gallery\<lparr>isSaving := False, generationError := Some apiKeyDetails\<rparr>)"
    by (simp add: generateAndAddNewVideos_def tryGenerate_def)
  with g n1 fetchVideo_finishedWith_bad show ?thesis by simp
qed

text \<open>
  C2, as the code has it. When the job has finished with a batch of result handles and
  the fetch of one of them answers with a status that is not a success, the batch
  rejects: \<open>generateVideoFromText\<close> throws the error of the item of the batch that
  rejects first, and \<open>generateAndAddNewVideos\<close> ends with the banner for that error and
  the video list as it was, so that none of the records of the batch is added. When the
  item that rejects first is one whose fetch answered with such a status, the message of
  the error starts with \<open>Failed to fetch video\<close>.
\<close>

theorem batch_fetch_failure:
  assumes "awaitOperation env prompt n ar = Some (Inr operation)"
    and "response operation = Some r"
    and "generatedVideos r = Some gvs"
    and "gv \<in> set gvs"
    and "decodeURIComponent (uri gv) = Some url"
    and "fetch env (url @ utf16 ''&key='' @ apiKey env) = Fulfilled t res"
    and "\<not> ok res"
  shows "\<exists>g tr e.
           g \<in> set gvs \<and> fetchVideo env g = Rejected tr e \<and>
           (\<forall>g' \<in> set gvs. \<forall>t' e'. fetchVideo env g' = Rejected t' e' \<longrightarrow> tr \<le> t') \<and>
           generateVideoFromText env prompt n ar = Some (Inl e) \<and>
           generateAndAddNewVideos env randomUUID prompt n baseTitle baseDescription ar st =
             Some (st\<lparr>isSaving := False, generationError := Some (classifyError e)\<rparr>) \<and>
           ((\<exists>url' t' res'. decodeURIComponent (uri g) = Some url' \<and>
               fetch env (url' @ utf16 ''&key='' @ apiKey env) = Fulfilled t' res' \<and> \<not> ok res')
            \<longrightarrow> (\<exists>msg. e = Error msg \<and> prefix (utf16 ''Failed to fetch video'') msg))"
proof -
  have "fetchVideo env gv \<in> fetchVideo env ` set gvs"
    using assms(4) by (rule imageI)
  then have "Rejected (Suc t) (Error (utf16 ''Failed to fetch video: ''
      @ natToString (status res) @ utf16 '' '' @ statusText res))
      \<in> set (map (fetchVideo env) gvs)"
    by (simp only: fetchVideo_not_ok [OF assms(5,6,7)] set_map)
  from promiseAll_rejects [OF this]
  obtain tr e where p: "promiseAll (map (fetchVideo env) gvs) = Some (Inl e)"
    and mem: "Rejected tr e \<in> set (map (fetchVideo env) gvs)"
    and least: "\<And>t' e'. Rejected t' e' \<in> set (map (fetchVideo env) gvs) \<Longrightarrow> tr \<le> t'"
    by blast
  from mem obtain g where g: "g \<in> set gvs" "fetchVideo env g = Rejected tr e"
    by auto
  have first: "\<forall>g' \<in> set gvs. \<forall>t' e'. fetchVideo env g' = Rejected t' e' \<longrightarrow> tr \<le> t'"
  proof (intro ballI allI impI)
    fix g' t' e'
    assume "g' \<in> set gvs" "fetchVideo env g' = Rejected t' e'"
    then have "Rejected t' e' \<in> set (map (fetchVideo env) gvs)"
      by (simp add: image_iff) (metis)
    then show "tr \<le> t'" by (rule least)
  qed
  from assms(4) have ne: "gvs \<noteq> []" by auto
  from assms(2,3) ne p have "videosOfOperation env operation = Some (Inl e)"
    by (simp add: videosOfOperation_def)
  with assms(1) have gen: "generateVideoFromText env prompt n ar = Some (Inl e)"
    by (simp add: generateVideoFromText_def)
  then have fin: "generateAndAddNewVideos env randomUUID prompt n baseTitle baseDescription
      ar st = Some (st\<lparr>isSaving := False, generationError := Some (classifyError e)\<rparr>)"
    by (simp add: generateAndAddNewVideos_def tryGenerate_def)
  have msg: "(\<exists>url' t' res'. decodeURIComponent (uri g) = Some url' \<and>
        fetch env (url' @ utf16 ''&key='' @ apiKey env) = Fulfilled t' res' \<and> \<not> ok res')
      \<longrightarrow> (\<exists>msg. e = Error msg \<and> prefix (utf16 ''Failed to fetch video'') msg)"
  proof
    assume "\<exists>url' t' res'. decodeURIComponent (uri g) = Some url' \<and>
        fetch env (url' @ utf16 ''&key='' @ apiKey env) = Fulfilled t' res' \<and> \<not> ok res'"
    then obtain url' t' res' where "decodeURIComponent (uri g) = Some url'"
      "fetch env (url' @ utf16 ''&key='' @ apiKey env) = Fulfilled t' res'" "\<not> ok res'"
      by blast
    from fetchVideo_not_ok [OF this] g(2)
    have "e = Error (utf16 ''Failed to fetch video: '' @ natToString (status res')
        @ utf16 '' '' @ statusText res')"
      by simp
    with prefix_failed show "\<exists>msg. e = Error msg \<and> prefix (utf16 ''Failed to fetch video'') msg"
      by blast
  qed
  from g first gen fin msg show ?thesis by blast
qed

theorem batch_fetch_failure_witness:
  "\<exists>g tr e.
     g \<in> set [\<lparr>uri = utf16 ''a''\<rparr>, \<lparr>uri = utf16 ''bad''\<rparr>] \<and>
     fetchVideo (finishedWith (Some [\<lparr>uri = utf16 ''a''\<rparr>, \<lparr>uri = utf16 ''bad''\<rparr>])) g =
       Rejected tr e \<and>
     (\<forall>g' \<in> set [\<lparr>uri = utf16 ''a''\<rparr>, \<lparr>uri = utf16 ''bad''\<rparr>]. \<forall>t' e'.
        fetchVideo (finishedWith (Some [\<lparr>uri = utf16 ''a''\<rparr>, \<lparr>uri = utf16 ''bad''\<rparr>])) g' =
          Rejected t' e' \<longrightarrow> tr \<le> t') \<and>
     generateVideoFromText (finishedWith (Some [\<lparr>uri = utf16 ''a''\<rparr>, \<lparr>uri = utf16 ''bad''\<rparr>]))
       (utf16 ''a cat'') 2 AR_16_9 = Some (Inl e) \<and>
     generateAndAddNewVideos (finishedWith (Some [\<lparr>uri = utf16 ''a''\<rparr>, \<lparr>uri = utf16 ''bad''\<rparr>]))
       natToString (utf16 ''a cat'') 2 (utf16 ''t'') (utf16 ''d'') AR_16_9 gallery =
       Some (gallery\<lparr>isSaving := False, generationError := Some (classifyError e)\<rparr>) \<and>
     ((\<exists>url' t' res'. decodeURIComponent (uri g) = Some url' \<and>
         fetch (finishedWith (Some [\<lparr>uri = utf16 ''a''\<rparr>, \<lparr>uri = utf16 ''bad''\<rparr>]))
           (url' @ utf16 ''&key=''
              @ apiKey (finishedWith (Some [\<lparr>uri = utf16 ''a''\<rparr>, \<lparr>uri = utf16 ''bad''\<rparr>]))) =
           Fulfilled t' res' \<and> \<not> ok res')
      \<longrightarrow> (\<exists>msg. e = Error msg \<and> prefix (utf16 ''Failed to fetch video'') msg))"
proof -
  let ?gvs = "[\<lparr>uri = utf16 ''a''\<rparr>, \<lparr>uri = utf16 ''bad''\<rparr>]"
  let ?env = "finishedWith (Some ?gvs)"
  have h1: "awaitOperation ?env (utf16 ''a cat'') 2 AR_16_9 =
      Some (Inr \<lparr>opDone = True, response = Some \<lparr>generatedVideos = Some ?gvs\<rparr>\<rparr>)"
    by (rule awaitOperation_finishedWith)
  have h2: "response \<lparr>opDone = True, response = Some \<lparr>generatedVideos = Some ?gvs\<rparr>\<rparr> =
      Some \<lparr>generatedVideos = Some ?gvs\<rparr>"
    by simp
  have h3: "generatedVideos \<lparr>generatedVideos = Some ?gvs\<rparr> = Some ?gvs"
    by simp
  have h4: "\<lparr>uri = utf16 ''bad''\<rparr> \<in> set ?gvs"
    by simp
  have h5: "decodeURIComponent (uri \<lparr>uri = utf16 ''bad''\<rparr>) = Some (utf16 ''bad'')"
    by code_simp
  have h6: "fetch ?env (utf16 ''bad'' @ utf16 ''&key='' @ apiKey ?env) =
      Fulfilled 1 \<lparr>ok = False, status = 503, statusText = utf16 ''Service Unavailable'',
                   blob = Pending\<rparr>"
    by (rule fetch_finishedWith_bad)
  have h7: "\<not> ok \<lparr>ok = False, status = 503, statusText = utf16 ''Service Unavailable'',
                   blob = Pending\<rparr>"
    by simp
  show ?thesis
    by (rule batch_fetch_failure [OF h1 h2 h3 h4 h5 h6 h7])
qed

subsection \<open>The number of results\<close>

lemma generateVideoFromText_one:
  "generateVideoFromText (finishedWith (Some [\<lparr>uri = utf16 ''a''\<rparr>])) (utf16 ''a cat'') 2
     AR_16_9 = Some (Inr [Some (utf16 ''QUJD'')])"
  by (simp add: generateVideoFromText_def awaitOperation_finishedWith videosOfOperation_def
      fetchVideo_finishedWith_a promiseAll_def)

text \<open>
  C5, as stated, fails: asked for two videos, a job that finishes with one result makes
  \<open>generateVideoFromText\<close> return a list of one element.
\<close>

theorem requested_count_counterexample:
  "generateVideoFromText (finishedWith (Some [\<lparr>uri = utf16 ''a''\<rparr>])) (utf16 ''a cat'') 2
     AR_16_9 = Some (Inr [Some (utf16 ''QUJD'')]) \<and>
   int (length [Some (utf16 ''QUJD'')]) \<noteq> 2"
  by (simp add: generateVideoFromText_one)

text \<open>
  C5, as the code has it. Whenever \<open>generateVideoFromText\<close> returns a list, the service
  was sent the prompt, the requested count and the aspect ratio, the job it answered
  with was polled until it reported completion, the finished job has a non-empty list
  of result handles, and the returned list has one element for each handle: what the
  fetch of the handle at the same position was fulfilled with. The length of the result
  is the number of handles of the job; it is not compared with the requested count.
\<close>

theorem generateVideoFromText_length:
  assumes "generateVideoFromText env prompt n ar = Some (Inr xs)"
  shows "\<exists>submitted operation r gvs.
           generateVideos env prompt n ar = Some (Inr submitted) \<and>
           pollOperation (getVideosOperation env) 0 submitted = Some (Inr operation) \<and>
           opDone operation \<and>
           response operation = Some r \<and> generatedVideos r = Some gvs \<and>
           gvs \<noteq> [] \<and> length xs = length gvs \<and>
           list_all2 (\<lambda>g x. \<exists>t. fetchVideo env g = Fulfilled t x) gvs xs"
proof -
  from assms obtain operation where a: "awaitOperation env prompt n ar = Some (Inr operation)"
    and v: "videosOfOperation env operation = Some (Inr xs)"
    by (auto simp: generateVideoFromText_def split: option.splits sum.splits)
  from a obtain submitted where s: "generateVideos env prompt n ar = Some (Inr submitted)"
    and p: "pollOperation (getVideosOperation env) 0 submitted = Some (Inr operation)"
    by (auto simp: awaitOperation_def split: option.splits sum.splits)
  from p have d: "opDone operation" by (rule pollOperation_done)
  from v obtain r gvs where r: "response operation = Some r"
    and gvs: "generatedVideos r = Some gvs" and ne: "gvs \<noteq> []"
    and pa: "promiseAll (map (fetchVideo env) gvs) = Some (Inr xs)"
    by (auto simp: videosOfOperation_def split: option.splits if_splits)
  from promiseAll_fulfils [OF pa]
  have l: "list_all2 (\<lambda>g x. \<exists>t. fetchVideo env g = Fulfilled t x) gvs xs"
    by (simp add: list_all2_map1)
  then have "length xs = length gvs" by (simp add: list_all2_lengthD)
  with s p d r gvs ne l show ?thesis by blast
qed

theorem generateVideoFromText_length_witness:
  "\<exists>submitted operation r gvs.
     generateVideos (finishedWith (Some [\<lparr>uri = utf16 ''a''\<rparr>])) (utf16 ''a cat'') 2 AR_16_9 =
       Some (Inr submitted) \<and>
     pollOperation (getVideosOperation (finishedWith (Some [\<lparr>uri = utf16 ''a''\<rparr>]))) 0 submitted =
       Some (Inr operation) \<and>
     opDone operation \<and>
     response operation = Some r \<and> generatedVideos r = Some gvs \<and>
     gvs \<noteq> [] \<and> length [Some (utf16 ''QUJD'')] = length gvs \<and>
     list_all2 (\<lambda>g x. \<exists>t. fetchVideo (finishedWith (Some [\<lparr>uri = utf16 ''a''\<rparr>])) g =
        Fulfilled t x) gvs [Some (utf16 ''QUJD'')]"
  by (rule generateVideoFromText_length [OF generateVideoFromText_one])

section \<open>Remix titles\<close>

lemma natToString_1: "natToString (Suc 0) = utf16 ''1''"
  by code_simp

lemma natToString_2: "natToString (Suc (Suc 0)) = utf16 ''2''"
  by code_simp

lemma numToString_2: "numToString 2 = utf16 ''2''"
  by code_simp

text \<open>
  C9. Saving a remix of a video titled \<open>Beach\<close> with two variations, when the job
  finishes with two result handles and the fetch of each is fulfilled, gives a video list
  that starts with two new records titled \<open>Remix of "Beach" (1/2)\<close> and
  \<open>Remix of "Beach" (2/2)\<close>, in that order, followed by the list as it was.
\<close>

theorem remix_two_variations:
  assumes "title originalVideo = utf16 ''Beach''"
    and "numberOfVideos opts = 2"
    and "awaitOperation env (promptText originalVideo opts) 2 (aspectRatio opts) =
           Some (Inr operation)"
    and "response operation = Some r"
    and "generatedVideos r = Some [g1, g2]"
    and "fetchVideo env g1 = Fulfilled t1 s1"
    and "fetchVideo env g2 = Fulfilled t2 s2"
  shows "\<exists>st'. handleSaveEdit env randomUUID originalVideo opts st = Some st' \<and>
           videos st' =
             [\<lparr>id' = randomUUID 0,
               videoUrl = utf16 ''data:video/mp4;base64,'' @ templateText s1,
               title = utf16 ''Remix of '' @ [DQ] @ utf16 ''Beach'' @ [DQ] @ utf16 '' (1/2)'',
               description = description originalVideo\<rparr>,
              \<lparr>id' = randomUUID 1,
               videoUrl = utf16 ''data:video/mp4;base64,'' @ templateText s2,
               title = utf16 ''Remix of '' @ [DQ] @ utf16 ''Beach'' @ [DQ] @ utf16 '' (2/2)'',
               description = description originalVideo\<rparr>]
             @ videos st"
proof -
  from assms(6,7) have "promiseAll (map (fetchVideo env) [g1, g2]) = Some (Inr [s1, s2])"
    by (simp add: promiseAll_two)
  with assms(4,5) have "videosOfOperation env operation = Some (Inr [s1, s2])"
    by (simp add: videosOfOperation_def)
  with assms(3) have g: "generateVideoFromText env (promptText originalVideo opts) 2
      (aspectRatio opts) = Some (Inr [s1, s2])"
    by (simp add: generateVideoFromText_def)
  have e: "enumerate 0 [s1, s2] = [(0, s1), (1, s2)]"
    by simp
  have l1: "utf16 '' ('' @ utf16 ''1'' @ utf16 ''/'' @ utf16 ''2'' @ utf16 '')'' = utf16 '' (1/2)''"
    by (simp add: utf16_def)
  have l2: "utf16 '' ('' @ utf16 ''2'' @ utf16 ''/'' @ utf16 ''2'' @ utf16 '')'' = utf16 '' (2/2)''"
    by (simp add: utf16_def)
  from g show ?thesis
    unfolding handleSaveEdit_def generateAndAddNewVideos_def tryGenerate_def assms(1,2) Let_def
    by (simp add: e newVideoAt_def natToString_1 natToString_2 numToString_2 l1 l2)
qed

theorem remix_two_variations_witness:
  "\<exists>st'. handleSaveEdit (finishedWith (Some [\<lparr>uri = utf16 ''a''\<rparr>, \<lparr>uri = utf16 ''b''\<rparr>]))
            natToString beach (remixOptions 2) gallery = Some st' \<and>
         videos st' =
           [\<lparr>id' = natToString 0,
             videoUrl = utf16 ''data:video/mp4;base64,'' @ templateText (Some (utf16 ''QUJD'')),
             title = utf16 ''Remix of '' @ [DQ] @ utf16 ''Beach'' @ [DQ] @ utf16 '' (1/2)'',
             description = description beach\<rparr>,
            \<lparr>id' = natToString 1,
             videoUrl = utf16 ''data:video/mp4;base64,'' @ templateText (Some (utf16 ''QUJD'')),
             title = utf16 ''Remix of '' @ [DQ] @ utf16 ''Beach'' @ [DQ] @ utf16 '' (2/2)'',
             description = description beach\<rparr>]
           @ videos gallery"
proof -
  let ?gvs = "[\<lparr>uri = utf16 ''a''\<rparr>, \<lparr>uri = utf16 ''b''\<rparr>]"
  let ?env = "finishedWith (Some ?gvs)"
  have h1: "title beach = utf16 ''Beach''"
    by (simp add: beach_def)
  have h2: "numberOfVideos (remixOptions 2) = 2"
    by (simp add: remixOptions_def)
  have h3: "awaitOperation ?env (promptText beach (remixOptions 2)) 2
      (aspectRatio (remixOptions 2)) =
      Some (Inr \<lparr>opDone = True, response = Some \<lparr>generatedVideos = Some ?gvs\<rparr>\<rparr>)"
    by (rule awaitOperation_finishedWith)
  have h4: "response \<lparr>opDone = True, response = Some \<lparr>generatedVideos = Some ?gvs\<rparr>\<rparr> =
      Some \<lparr>generatedVideos = Some ?gvs\<rparr>"
    by simp
  have h5: "generatedVideos \<lparr>generatedVideos = Some ?gvs\<rparr> = Some ?gvs"
    by simp
  have h6: "fetchVideo ?env \<lparr>uri = utf16 ''a''\<rparr> = Fulfilled 4 (Some (utf16 ''QUJD''))"
    by (rule fetchVideo_finishedWith_a)
  have h7: "fetchVideo ?env \<lparr>uri = utf16 ''b''\<rparr> = Fulfilled 4 (Some (utf16 ''QUJD''))"
    by (rule fetchVideo_finishedWith_b)
  show ?thesis
    by (rule remix_two_variations [OF h1 h2 h3 h4 h5 h6 h7])
qed

end
